theory Spec2Isabelle
  imports Complex_Main
begin

section \<open>Data model of the word tagger\<close>

text \<open>
  The tagger of \<^verbatim>\<open>flair/models/word_tagger_model.py\<close> works on sentences whose tokens
  are mutable objects shared with the caller. Tokens therefore live in a store that maps
  a reference to the token's current contents; a sentence is the ordered list of the
  references of its tokens, which is what iterating over a sentence yields.
\<close>

type_synonym vec = "real list"

record label =
  label_value :: string
  label_score :: real

record token =
  tok_text :: string
  tok_labels :: "string \<rightharpoonup> label"
  tok_embeddings :: "(string \<times> vec) list"

type_synonym addr = nat
type_synonym heap = "addr \<Rightarrow> token"
type_synonym sentence = "addr list"

datatype error =
  StackEmptyList
  | StackSizeMismatch
  | EmbeddingError string
  | StateTypeError string
  | DuplicateKeyword string

text \<open>
  The embedding provider is an external collaborator: \<open>embed\<close> changes the tokens in
  place (or raises), \<open>get_names\<close> lists the embedding sources and
  \<open>embedding_length\<close> is the length of the vector of one token.
\<close>

record provider =
  embed :: "heap \<Rightarrow> sentence list \<Rightarrow> (error + unit) \<times> heap"
  get_names :: "string list"
  embedding_length :: nat

type_synonym dictionary = "string list"

datatype py_value =
  PyNone
  | PyBool bool
  | PyInt int
  | PyFloat real
  | PyStr string
  | PyEmbeddings provider
  | PyDictionary dictionary
  | PyTensors "(string \<times> vec) list"

type_synonym state_dict = "string \<rightharpoonup> py_value"

record default_classifier =
  label_dictionary :: dictionary
  final_embedding_size :: nat
  classifierargs :: "(string \<times> py_value) list"

record word_tagger = default_classifier +
  embeddings :: provider
  tag_type :: string

section \<open>Collaborators outside the source file\<close>

text \<open>
  Modelled from the spec: \<^verbatim>\<open>Token.get_label\<close> of \<^verbatim>\<open>flair.data\<close>, which is not
  part of the source file. A token carries a mapping from label-type name to label; the
  accessor returns the label under the requested type and, when the token has none, a
  label whose value is the given zero tag value. The confidence of that default label
  is never read by the tagger.
\<close>

definition get_label :: "token \<Rightarrow> string \<Rightarrow> string \<Rightarrow> label" where
  "get_label tok typename zero_tag_value =
     (case tok_labels tok typename of
        Some l \<Rightarrow> l
      | None \<Rightarrow> \<lparr>label_value = zero_tag_value, label_score = 1\<rparr>)"

text \<open>
  Modelled from the spec: the value that \<^verbatim>\<open>Token.get_label\<close> takes for its zero tag
  value when the caller passes the label type only, as label extraction does. The spec
  asks that a token without a gold label degrades to the outside value.
\<close>

definition default_zero_tag_value :: string where
  "default_zero_tag_value = ''O''"

text \<open>
  Modelled from the spec: \<^verbatim>\<open>Token.get_embedding\<close> of \<^verbatim>\<open>flair.data\<close>, which reads
  back the vectors attached to the token under the given source names, as one vector.
\<close>

definition get_embedding :: "string list \<Rightarrow> token \<Rightarrow> vec" where
  "get_embedding names tok =
     concat (map snd (filter (\<lambda>(n, v). n \<in> set names) (tok_embeddings tok)))"

text \<open>
  \<^verbatim>\<open>torch.stack\<close> on a list of one-dimensional tensors: it raises on the empty list and
  on tensors of different sizes, and otherwise returns the tensor whose rows are the
  given tensors in order.
\<close>

fun stack :: "vec list \<Rightarrow> error + vec list" where
  "stack [] = Inl StackEmptyList"
| "stack (v # vs) =
     (if list_all (\<lambda>w. length w = length v) vs then Inr (v # vs) else Inl StackSizeMismatch)"

text \<open>
  Modelled from the spec: the constructor of the generic classifier (\<^verbatim>\<open>flair.nn\<close>),
  which keeps the label dictionary and the remaining configuration it is given.
\<close>

definition DefaultClassifier_init ::
  "dictionary \<Rightarrow> nat \<Rightarrow> (string \<times> py_value) list \<Rightarrow> default_classifier" where
  "DefaultClassifier_init label_dict final_size args =
     \<lparr>label_dictionary = label_dict, final_embedding_size = final_size,
      classifierargs = args\<rparr>"

section \<open>The word tagger\<close>

text \<open>
  \<^verbatim>\<open>WordTagger.__init__\<close>: the base constructor receives the tag dictionary as its label
  dictionary and the provider's embedding length; the provider and the tag type are
  stored on the instance. Moving the parameters to the device changes none of these.
\<close>

definition WordTagger_init ::
  "provider \<Rightarrow> dictionary \<Rightarrow> string \<Rightarrow> (string \<times> py_value) list \<Rightarrow> word_tagger" where
  "WordTagger_init embs tag_dictionary ttype args =
     default_classifier.extend
       (DefaultClassifier_init tag_dictionary (embedding_length embs) args)
       (word_tagger.fields embs ttype)"

text \<open>
  Keyword arguments are passed on as a list of names and values. A call that gives a
  keyword explicitly and once more through \<^verbatim>\<open>**kwargs\<close> raises a
  \<^verbatim>\<open>TypeError\<close>. The constructor call of the class runs \<^verbatim>\<open>__init__\<close>, whose call of the
  base constructor names \<^verbatim>\<open>label_dictionary\<close> and \<^verbatim>\<open>final_embedding_size\<close> and
  passes \<^verbatim>\<open>**classifierargs\<close> on: it raises when the arguments repeat one of the two,
  and otherwise builds the instance of \<open>WordTagger_init\<close>.
\<close>

definition has_keyword :: "string \<Rightarrow> (string \<times> py_value) list \<Rightarrow> bool" where
  "has_keyword k kwargs = (k \<in> set (map fst kwargs))"

definition WordTagger_new ::
  "provider \<Rightarrow> dictionary \<Rightarrow> string \<Rightarrow> (string \<times> py_value) list
     \<Rightarrow> error + word_tagger" where
  "WordTagger_new embs tag_dictionary ttype args =
     (if has_keyword ''label_dictionary'' args then Inl (DuplicateKeyword ''label_dictionary'')
      else if has_keyword ''final_embedding_size'' args
        then Inl (DuplicateKeyword ''final_embedding_size'')
      else Inr (WordTagger_init embs tag_dictionary ttype args))"

text \<open>The property \<^verbatim>\<open>label_type\<close>.\<close>

definition label_type :: "word_tagger \<Rightarrow> string" where
  "label_type self = tag_type self"

text \<open>
  \<^verbatim>\<open>_get_state_dict\<close>: the state of the base class (its argument \<open>super_state\<close>)
  overwritten at three keys.
\<close>

definition get_state_dict :: "state_dict \<Rightarrow> word_tagger \<Rightarrow> state_dict" where
  "get_state_dict super_state self =
     super_state
       (''embeddings'' \<mapsto> PyEmbeddings (embeddings self),
        ''tag_dictionary'' \<mapsto> PyDictionary (label_dictionary self),
        ''tag_type'' \<mapsto> PyStr (tag_type self))"

text \<open>\<^verbatim>\<open>dict.get\<close> with one argument.\<close>

definition dict_get :: "state_dict \<Rightarrow> string \<Rightarrow> py_value" where
  "dict_get state k = (case state k of Some v \<Rightarrow> v | None \<Rightarrow> PyNone)"

text \<open>
  Modelled from the spec: \<^verbatim>\<open>_init_model_with_state_dict\<close> of the base class, which
  constructs the model from the keyword arguments it receives and then restores the
  fields of the base class from the state. How the base class reads its own fields is
  not part of the source file: \<open>load_base_fields\<close> stands for it and tells whether the
  base class accepts the state. The constructor reads
  \<^verbatim>\<open>embeddings.embedding_length\<close>, so a value that is no provider raises; the typed
  fields of the instance hold a dictionary and a string only.
\<close>

definition base_init_model_with_state_dict ::
  "(state_dict \<Rightarrow> error + unit) \<Rightarrow> state_dict \<Rightarrow> py_value \<Rightarrow> py_value \<Rightarrow> py_value
     \<Rightarrow> (string \<times> py_value) list \<Rightarrow> error + word_tagger" where
  "base_init_model_with_state_dict load_base_fields state embs tag_dictionary ttype kwargs =
     (case embs of
        PyEmbeddings e \<Rightarrow>
          (case tag_dictionary of
             PyDictionary d \<Rightarrow>
               (case ttype of
                  PyStr t \<Rightarrow>
                    (case WordTagger_new e d t kwargs of
                       Inl err \<Rightarrow> Inl err
                     | Inr model \<Rightarrow>
                         (case load_base_fields state of
                            Inl err \<Rightarrow> Inl err
                          | Inr u \<Rightarrow> Inr model))
                | _ \<Rightarrow> Inl (StateTypeError ''tag_type''))
           | _ \<Rightarrow> Inl (StateTypeError ''tag_dictionary''))
      | _ \<Rightarrow> Inl (StateTypeError ''embeddings''))"

text \<open>
  \<^verbatim>\<open>_init_model_with_state_dict\<close> of the tagger: the call of the base method names
  \<^verbatim>\<open>embeddings\<close>, \<^verbatim>\<open>tag_dictionary\<close> and \<^verbatim>\<open>tag_type\<close> and passes
  \<^verbatim>\<open>**kwargs\<close> on, so it raises when \<open>kwargs\<close> repeats one of the three.
\<close>

definition init_model_with_state_dict ::
  "(state_dict \<Rightarrow> error + unit) \<Rightarrow> state_dict \<Rightarrow> (string \<times> py_value) list
     \<Rightarrow> error + word_tagger" where
  "init_model_with_state_dict load_base_fields state kwargs =
     (if has_keyword ''embeddings'' kwargs then Inl (DuplicateKeyword ''embeddings'')
      else if has_keyword ''tag_dictionary'' kwargs then Inl (DuplicateKeyword ''tag_dictionary'')
      else if has_keyword ''tag_type'' kwargs then Inl (DuplicateKeyword ''tag_type'')
      else base_init_model_with_state_dict load_base_fields state
             (dict_get state ''embeddings'')
             (dict_get state ''tag_dictionary'')
             (dict_get state ''tag_type'')
             kwargs)"

text \<open>
  \<^verbatim>\<open>_prepare_tensors\<close>: the provider embeds the sentences in place, then the vectors of
  all tokens are read back in flattened order and stacked. The result is the outcome
  together with the store as the call leaves it.
\<close>

definition prepare_tensors ::
  "word_tagger \<Rightarrow> heap \<Rightarrow> sentence list \<Rightarrow> (error + vec list) \<times> heap" where
  "prepare_tensors self h sentences =
     (case embed (embeddings self) h sentences of
        (Inl e, h') \<Rightarrow> (Inl e, h')
      | (Inr u, h') \<Rightarrow>
          (let all_tokens = [token. sentence \<leftarrow> sentences, token \<leftarrow> sentence];
               names = get_names (embeddings self);
               all_embeddings = [get_embedding names (h' token). token \<leftarrow> all_tokens]
           in (stack all_embeddings, h')))"

text \<open>\<^verbatim>\<open>_get_labels\<close>.\<close>

definition get_labels :: "word_tagger \<Rightarrow> heap \<Rightarrow> sentence list \<Rightarrow> string list list" where
  "get_labels self h sentences =
     (let all_tokens = [token. sentence \<leftarrow> sentences, token \<leftarrow> sentence]
      in [[label_value (get_label (h token) (label_type self) default_zero_tag_value)].
            token \<leftarrow> all_tokens])"

text \<open>\<^verbatim>\<open>_get_prediction_data_points\<close>: the loop that extends the list of tokens.\<close>

fun extend_tokens :: "sentence list \<Rightarrow> addr list \<Rightarrow> addr list" where
  "extend_tokens [] tokens = tokens"
| "extend_tokens (sentence # sentences) tokens = extend_tokens sentences (tokens @ sentence)"

definition get_prediction_data_points :: "word_tagger \<Rightarrow> sentence list \<Rightarrow> addr list" where
  "get_prediction_data_points self sentences = extend_tokens sentences []"

text \<open>
  \<^verbatim>\<open>_print_predictions\<close>: the formatted line of one token, the inner loop over the tokens
  of a sentence and the outer loop over the batch. The loops carry the list of lines
  and the store; every access to a token is a read.
\<close>

definition eval_line :: "token \<Rightarrow> string \<Rightarrow> string" where
  "eval_line tok gold_label_type =
     tok_text tok @ '' '' @ label_value (get_label tok gold_label_type ''O'') @ '' ''
       @ label_value (get_label tok ''predicted'' ''O'') @ [CHR 0x0A]"

fun print_tokens :: "string \<Rightarrow> sentence \<Rightarrow> string list \<times> heap \<Rightarrow> string list \<times> heap" where
  "print_tokens gold_label_type [] (lines, h) = (lines, h)"
| "print_tokens gold_label_type (token # rest) (lines, h) =
     print_tokens gold_label_type rest (lines @ [eval_line (h token) gold_label_type], h)"

fun print_datapoints ::
  "string \<Rightarrow> sentence list \<Rightarrow> string list \<times> heap \<Rightarrow> string list \<times> heap" where
  "print_datapoints gold_label_type [] st = st"
| "print_datapoints gold_label_type (datapoint # rest) st =
     (case print_tokens gold_label_type datapoint st of
        (lines, h) \<Rightarrow> print_datapoints gold_label_type rest (lines @ [[CHR 0x0A]], h))"

definition print_predictions ::
  "word_tagger \<Rightarrow> heap \<Rightarrow> sentence list \<Rightarrow> string \<Rightarrow> string list \<times> heap" where
  "print_predictions self h batch gold_label_type =
     print_datapoints gold_label_type batch ([], h)"

section \<open>Sequences of operations on one instance\<close>

text \<open>
  The operations of the tagger as a caller can issue them on an instance, in any order.
  No method of the class assigns an attribute of the instance after construction, so
  each step returns the instance as it received it; the store is the one the method
  leaves behind, also when the method raises.
\<close>

datatype operation =
  OpGetStateDict state_dict
  | OpPrepareTensors "sentence list"
  | OpGetLabels "sentence list"
  | OpGetPredictionDataPoints "sentence list"
  | OpLabelType
  | OpPrintPredictions "sentence list" string

fun run_operation :: "operation \<Rightarrow> word_tagger \<times> heap \<Rightarrow> word_tagger \<times> heap" where
  "run_operation (OpGetStateDict super_state) (self, h) = (self, h)"
| "run_operation (OpPrepareTensors sentences) (self, h) =
     (self, snd (prepare_tensors self h sentences))"
| "run_operation (OpGetLabels sentences) (self, h) = (self, h)"
| "run_operation (OpGetPredictionDataPoints sentences) (self, h) = (self, h)"
| "run_operation OpLabelType (self, h) = (self, h)"
| "run_operation (OpPrintPredictions batch gold_label_type) (self, h) =
     (self, snd (print_predictions self h batch gold_label_type))"

definition run_operations ::
  "operation list \<Rightarrow> word_tagger \<times> heap \<Rightarrow> word_tagger \<times> heap" where
  "run_operations ops st = fold run_operation ops st"

section \<open>Example inputs\<close>

text \<open>
  A provider that attaches to every token of the batch one vector under the source
  \<open>word\<close>, a tagger for part-of-speech tags, a store with the tokens "The", "cat"
  and "sat" (the last without any label, "cat" without a predicted one), the batch
  of the two sentences "The cat" and "sat", a store in which every token carries the
  label "X" twice, a base-class state that holds the parameters of the network and
  already has a key of the tagger, a base class that asks for these parameters, and
  keyword arguments for the base constructor.
\<close>

definition example_provider :: provider where
  "example_provider =
     \<lparr>embed = (\<lambda>h sentences.
        (Inr (),
         fold (\<lambda>a h'. h'(a := (h' a)\<lparr>tok_embeddings :=
                 [(''word'', [real (length (tok_text (h' a))), 1])]\<rparr>))
           (concat sentences) h)),
      get_names = [''word''],
      embedding_length = 2\<rparr>"

definition example_tagger :: word_tagger where
  "example_tagger = WordTagger_init example_provider [''DET'', ''NOUN'', ''VERB''] ''pos'' []"

definition mk_label :: "string \<Rightarrow> label" where
  "mk_label v = \<lparr>label_value = v, label_score = 1\<rparr>"

definition example_heap :: heap where
  "example_heap =
     (\<lambda>a. \<lparr>tok_text = ''sat'', tok_labels = Map.empty, tok_embeddings = []\<rparr>)
       (0 := \<lparr>tok_text = ''The'',
              tok_labels = [''pos'' \<mapsto> mk_label ''DET'', ''predicted'' \<mapsto> mk_label ''DET''],
              tok_embeddings = []\<rparr>,
        1 := \<lparr>tok_text = ''cat'', tok_labels = [''pos'' \<mapsto> mk_label ''NOUN''],
              tok_embeddings = []\<rparr>)"

definition example_batch :: "sentence list" where
  "example_batch = [[0, 1], [2]]"

definition uniform_heap :: heap where
  "uniform_heap =
     (\<lambda>a. \<lparr>tok_text = ''w'',
            tok_labels = [''pos'' \<mapsto> mk_label ''X'', ''predicted'' \<mapsto> mk_label ''X''],
            tok_embeddings = []\<rparr>)"




lemmas example_defs =
  example_tagger_def WordTagger_init_def example_provider_def default_classifier.extend_def
  word_tagger.fields_def DefaultClassifier_init_def example_heap_def example_batch_def
  mk_label_def

section \<open>Auxiliary facts\<close>

lemma all_tokens_concat: "[token. sentence \<leftarrow> sentences, token \<leftarrow> sentence] = concat sentences"
  by (induction sentences) simp_all

lemma extend_tokens_concat: "extend_tokens sentences tokens = tokens @ concat sentences"
  by (induction sentences arbitrary: tokens) simp_all

lemma get_labels_map:
  "get_labels self h sentences =
     map (\<lambda>token. [label_value (get_label (h token) (label_type self) default_zero_tag_value)])
       (concat sentences)"
  by (simp add: get_labels_def all_tokens_concat)

lemma stack_Inr: "stack vs = Inr T \<Longrightarrow> T = vs \<and> vs \<noteq> []"
  by (cases vs) (auto split: if_splits)

lemma stack_returns:
  "vs \<noteq> [] \<Longrightarrow> list_all (\<lambda>w. length w = n) vs \<Longrightarrow> stack vs = Inr vs"
  by (cases vs) (auto simp: list_all_iff)

lemma print_tokens_char:
  "print_tokens g s (lines, h) = (lines @ map (\<lambda>a. eval_line (h a) g) s, h)"
  by (induction s arbitrary: lines) simp_all

lemma print_datapoints_char:
  "print_datapoints g batch (lines, h) =
     (lines @ concat (map (\<lambda>s. map (\<lambda>a. eval_line (h a) g) s @ [[CHR 0x0A]]) batch), h)"
  by (induction batch arbitrary: lines) (simp_all add: print_tokens_char)

lemma run_operation_self: "fst (run_operation op st) = fst st"
  by (cases op; cases st) simp_all

lemma run_operations_self: "fst (run_operations ops st) = fst st"
  unfolding run_operations_def
  by (induction ops arbitrary: st) (simp_all add: run_operation_self)

lemma get_labels_nth:
  "i < length (concat sentences) \<Longrightarrow>
   get_labels self h sentences ! i =
     [label_value (get_label (h (concat sentences ! i)) (label_type self) default_zero_tag_value)]"
  by (simp add: get_labels_map)

lemma print_predictions_lines:
  "fst (print_predictions self h batch g) =
     concat (map (\<lambda>s. map (\<lambda>a. eval_line (h a) g) s @ [[CHR 0x0A]]) batch)"
  by (simp add: print_predictions_def print_datapoints_char)


lemma init_duplicate_keyword_raises:
  assumes "has_keyword ''embeddings'' kwargs \<or> has_keyword ''tag_dictionary'' kwargs
           \<or> has_keyword ''tag_type'' kwargs"
  shows "\<exists>k. init_model_with_state_dict load_base_fields state kwargs = Inl (DuplicateKeyword k)"
  using assms by (auto simp: init_model_with_state_dict_def)

lemma new_duplicate_keyword_raises:
  assumes "has_keyword ''label_dictionary'' args \<or> has_keyword ''final_embedding_size'' args"
  shows "\<exists>k. WordTagger_new embs tag_dictionary ttype args = Inl (DuplicateKeyword k)"
  using assms by (auto simp: WordTagger_new_def)

lemma WordTagger_init_fields:
  "embeddings (WordTagger_init e d t args) = e"
  "label_dictionary (WordTagger_init e d t args) = d"
  "tag_type (WordTagger_init e d t args) = t"
  by (simp_all add: WordTagger_init_def DefaultClassifier_init_def
      default_classifier.extend_def word_tagger.fields_def)




section \<open>The claims\<close>

subsection \<open>C1: one flattened order for tensor rows, labels and prediction targets\<close>

text \<open>
  C1, as stated, promises a tensor for every batch. On a batch without tokens the
  list of embeddings is empty and stacking raises, so no tensor of zero rows is
  returned.
\<close>

theorem prepare_tensors_empty_batch_raises:
  "fst (prepare_tensors example_tagger example_heap []) = Inl StackEmptyList
   \<and> sum_list (map length ([] :: sentence list)) = 0"
  by (simp add: prepare_tensors_def example_tagger_def WordTagger_init_def example_provider_def
      default_classifier.extend_def word_tagger.fields_def DefaultClassifier_init_def)

text \<open>
  C1, amended. For every batch the label list and the list of prediction targets have
  exactly as many entries as the batch has tokens, the targets are the tokens sentence
  by sentence and token by token, and the labels are read from the targets in that
  order. Whenever \<open>prepare_tensors\<close> returns a tensor, it has one row per token and row
  \<open>i\<close> is the embedding of target \<open>i\<close>. It does return one when the batch has at
  least one token, the provider succeeds and all token vectors have one length.
\<close>

theorem flattened_order_shared:
  "length (get_labels self hl sentences) = sum_list (map length sentences)
   \<and> length (get_prediction_data_points self sentences) = sum_list (map length sentences)
   \<and> get_prediction_data_points self sentences = concat sentences
   \<and> get_labels self hl sentences =
       map (\<lambda>token. [label_value (get_label (hl token) (label_type self) default_zero_tag_value)])
         (get_prediction_data_points self sentences)
   \<and> (\<forall>T h'. prepare_tensors self h sentences = (Inr T, h') \<longrightarrow>
         length T = sum_list (map length sentences)
         \<and> T = map (\<lambda>token. get_embedding (get_names (embeddings self)) (h' token))
                 (get_prediction_data_points self sentences))
   \<and> (\<forall>h' n. concat sentences \<noteq> []
         \<and> embed (embeddings self) h sentences = (Inr (), h')
         \<and> (\<forall>token \<in> set (concat sentences).
               length (get_embedding (get_names (embeddings self)) (h' token)) = n)
         \<longrightarrow> prepare_tensors self h sentences =
               (Inr (map (\<lambda>token. get_embedding (get_names (embeddings self)) (h' token))
                  (get_prediction_data_points self sentences)), h'))"
proof -
  have dp: "get_prediction_data_points self sentences = concat sentences"
    by (simp add: get_prediction_data_points_def extend_tokens_concat)
  have lab: "get_labels self hl sentences =
       map (\<lambda>token. [label_value (get_label (hl token) (label_type self) default_zero_tag_value)])
         (concat sentences)"
    by (rule get_labels_map)
  have partial: "length T = sum_list (map length sentences)
         \<and> T = map (\<lambda>token. get_embedding (get_names (embeddings self)) (h' token))
                 (concat sentences)"
    if "prepare_tensors self h sentences = (Inr T, h')" for T h'
  proof -
    from that obtain u where e: "embed (embeddings self) h sentences = (Inr u, h')"
      and s: "stack (map (\<lambda>token. get_embedding (get_names (embeddings self)) (h' token))
                 (concat sentences)) = Inr T"
      by (auto simp: prepare_tensors_def all_tokens_concat Let_def split: prod.splits sum.splits)
    from stack_Inr [OF s] show ?thesis by (simp add: length_concat)
  qed
  have total: "prepare_tensors self h sentences =
               (Inr (map (\<lambda>token. get_embedding (get_names (embeddings self)) (h' token))
                  (concat sentences)), h')"
    if ne: "concat sentences \<noteq> []"
      and e: "embed (embeddings self) h sentences = (Inr (), h')"
      and u: "\<forall>token \<in> set (concat sentences).
               length (get_embedding (get_names (embeddings self)) (h' token)) = n"
    for h' n
  proof -
    have "stack (map (\<lambda>token. get_embedding (get_names (embeddings self)) (h' token))
            (concat sentences)) =
          Inr (map (\<lambda>token. get_embedding (get_names (embeddings self)) (h' token))
            (concat sentences))"
      using ne u by (intro stack_returns [where n = n]) (simp_all add: list_all_iff)
    then show ?thesis using e by (simp add: prepare_tensors_def all_tokens_concat)
  qed
  have len: "length (concat sentences) = sum_list (map length sentences)"
    by (simp add: length_concat)
  have l1: "length (get_labels self hl sentences) = sum_list (map length sentences)"
    by (simp add: lab len)
  show ?thesis
    unfolding dp using l1 len lab partial total by blast
qed

theorem flattened_order_shared_witness:
  "concat example_batch \<noteq> []
   \<and> fst (embed (embeddings example_tagger) example_heap example_batch) = Inr ()
   \<and> fst (prepare_tensors example_tagger example_heap example_batch)
       = Inr [[3, 1], [3, 1], [3, 1]]
   \<and> get_labels example_tagger example_heap example_batch = [[''DET''], [''NOUN''], [''O'']]
   \<and> get_prediction_data_points example_tagger example_batch = [0, 1, 2]"
proof -
  define h' where "h' = snd (embed (embeddings example_tagger) example_heap example_batch)"
  have ne: "concat example_batch \<noteq> []"
    by (simp add: example_batch_def)
  have e: "embed (embeddings example_tagger) example_heap example_batch = (Inr (), h')"
    by (simp add: h'_def example_defs)
  have u: "\<forall>token \<in> set (concat example_batch).
             length (get_embedding (get_names (embeddings example_tagger)) (h' token)) = 2"
    by (simp add: h'_def example_defs get_embedding_def)
  have dp: "get_prediction_data_points example_tagger example_batch = [0, 1, 2]"
    by (simp add: get_prediction_data_points_def example_batch_def)
  from flattened_order_shared [of example_tagger example_heap example_batch example_heap]
  have t: "prepare_tensors example_tagger example_heap example_batch =
             (Inr (map (\<lambda>token. get_embedding (get_names (embeddings example_tagger)) (h' token))
                (get_prediction_data_points example_tagger example_batch)), h')"
    and l: "get_labels example_tagger example_heap example_batch =
       map (\<lambda>token. [label_value (get_label (example_heap token) (label_type example_tagger)
                                    default_zero_tag_value)])
         (get_prediction_data_points example_tagger example_batch)"
    using ne e u by blast+
  have rows: "fst (prepare_tensors example_tagger example_heap example_batch)
       = Inr [[3, 1], [3, 1], [3, 1]]"
    unfolding t dp by (simp add: h'_def example_defs get_embedding_def)
  have labs: "get_labels example_tagger example_heap example_batch
       = [[''DET''], [''NOUN''], [''O'']]"
    unfolding l dp
    by (simp add: example_defs get_label_def label_type_def default_zero_tag_value_def)
  show ?thesis using ne e rows labs dp by simp
qed

subsection \<open>C2: a token without gold label is extracted as O\<close>

text \<open>
  C2. In the list of \<open>get_labels\<close>, the entry of a token that has no label under the
  tagger's label type is the one-element list holding "O"; nothing fails.
\<close>

theorem get_labels_missing_label_default:
  assumes "i < length (concat sentences)"
    and "tok_labels (h (concat sentences ! i)) (label_type self) = None"
  shows "get_labels self h sentences ! i = [''O'']"
  using assms by (simp add: get_labels_nth get_label_def default_zero_tag_value_def)

theorem get_labels_missing_label_default_witness:
  "(2::nat) < length (concat example_batch)
   \<and> tok_labels (example_heap (concat example_batch ! 2)) (label_type example_tagger) = None
   \<and> get_labels example_tagger example_heap example_batch ! 2 = [''O'']"
proof -
  have a: "(2::nat) < length (concat example_batch)"
    by (simp add: example_batch_def)
  have b: "tok_labels (example_heap (concat example_batch ! 2)) (label_type example_tagger) = None"
    by (simp add: example_defs label_type_def)
  show ?thesis
    using a b get_labels_missing_label_default [of 2 example_batch example_heap example_tagger] by simp
qed

subsection \<open>C3: rendering a batch whose labels all have one value\<close>

text \<open>
  C3. When every token of the batch has a gold label and a predicted label of value
  \<open>x\<close>, \<open>print_predictions\<close> yields for each sentence one line
  "text x x" per token, in order, and then one blank line.
\<close>

theorem print_predictions_uniform_labels:
  assumes "\<forall>s \<in> set batch. \<forall>a \<in> set s.
             (\<exists>l. tok_labels (h a) g = Some l \<and> label_value l = x)
             \<and> (\<exists>l. tok_labels (h a) ''predicted'' = Some l \<and> label_value l = x)"
  shows "fst (print_predictions self h batch g) =
           concat (map (\<lambda>s. map (\<lambda>a. tok_text (h a) @ '' '' @ x @ '' '' @ x @ [CHR 0x0A]) s
                              @ [[CHR 0x0A]]) batch)"
proof -
  have "eval_line (h a) g = tok_text (h a) @ '' '' @ x @ '' '' @ x @ [CHR 0x0A]"
    if "s \<in> set batch" and "a \<in> set s" for s a
    using assms that by (fastforce simp: eval_line_def get_label_def)
  then have "map (\<lambda>a. eval_line (h a) g) s
             = map (\<lambda>a. tok_text (h a) @ '' '' @ x @ '' '' @ x @ [CHR 0x0A]) s"
    if "s \<in> set batch" for s
    using that by simp
  then have "map (\<lambda>s. map (\<lambda>a. eval_line (h a) g) s @ [[CHR 0x0A]]) batch
             = map (\<lambda>s. map (\<lambda>a. tok_text (h a) @ '' '' @ x @ '' '' @ x @ [CHR 0x0A]) s
                      @ [[CHR 0x0A]]) batch"
    by simp
  then show ?thesis by (simp only: print_predictions_lines)
qed

theorem print_predictions_uniform_labels_witness:
  "fst (print_predictions example_tagger uniform_heap example_batch ''pos'') =
     [''w X X'' @ [CHR 0x0A], ''w X X'' @ [CHR 0x0A], [CHR 0x0A],
      ''w X X'' @ [CHR 0x0A], [CHR 0x0A]]"
proof -
  have a: "\<forall>s \<in> set example_batch. \<forall>a \<in> set s.
      (\<exists>l. tok_labels (uniform_heap a) ''pos'' = Some l \<and> label_value l = ''X'')
      \<and> (\<exists>l. tok_labels (uniform_heap a) ''predicted'' = Some l \<and> label_value l = ''X'')"
    by (simp add: uniform_heap_def mk_label_def)
  show ?thesis
    using print_predictions_uniform_labels [OF a, of example_tagger]
    by (simp add: example_batch_def uniform_heap_def)
qed

subsection \<open>C4: missing labels render as O\<close>

text \<open>
  C4. Every token yields one line; its gold column is the value of the token's label
  under the gold label type, or "O" when it has none, and its predicted column is the
  value of its label under \<open>predicted\<close>, or "O" when it has none. A token with
  neither label yields the line "text O O".
\<close>

theorem print_predictions_default_columns:
  "fst (print_predictions self h batch g) =
     concat (map (\<lambda>s. map (\<lambda>a.
         tok_text (h a) @ '' ''
           @ (case tok_labels (h a) g of None \<Rightarrow> ''O'' | Some l \<Rightarrow> label_value l) @ '' ''
           @ (case tok_labels (h a) ''predicted'' of None \<Rightarrow> ''O'' | Some l \<Rightarrow> label_value l)
           @ [CHR 0x0A]) s @ [[CHR 0x0A]]) batch)
   \<and> (\<forall>s \<in> set batch. \<forall>a \<in> set s.
         tok_labels (h a) g = None \<and> tok_labels (h a) ''predicted'' = None \<longrightarrow>
         tok_text (h a) @ '' O O'' @ [CHR 0x0A] \<in> set (fst (print_predictions self h batch g)))"
proof -
  have line: "eval_line tok g =
         tok_text tok @ '' ''
           @ (case tok_labels tok g of None \<Rightarrow> ''O'' | Some l \<Rightarrow> label_value l) @ '' ''
           @ (case tok_labels tok ''predicted'' of None \<Rightarrow> ''O'' | Some l \<Rightarrow> label_value l)
           @ [CHR 0x0A]" for tok
    by (simp add: eval_line_def get_label_def split: option.splits)
  have both: "eval_line tok g = tok_text tok @ '' O O'' @ [CHR 0x0A]"
    if "tok_labels tok g = None" and "tok_labels tok ''predicted'' = None" for tok
    using that by (simp add: line)
  have mem: "tok_text (h a) @ '' O O'' @ [CHR 0x0A] \<in> set (fst (print_predictions self h batch g))"
    if "s \<in> set batch" and "a \<in> set s"
      and "tok_labels (h a) g = None" and "tok_labels (h a) ''predicted'' = None" for s a
  proof -
    have "eval_line (h a) g \<in> set (fst (print_predictions self h batch g))"
      using that(1,2) by (auto simp: print_predictions_lines)
    then show ?thesis using both [OF that(3,4)] by simp
  qed
  have eq: "fst (print_predictions self h batch g) =
     concat (map (\<lambda>s. map (\<lambda>a.
         tok_text (h a) @ '' ''
           @ (case tok_labels (h a) g of None \<Rightarrow> ''O'' | Some l \<Rightarrow> label_value l) @ '' ''
           @ (case tok_labels (h a) ''predicted'' of None \<Rightarrow> ''O'' | Some l \<Rightarrow> label_value l)
           @ [CHR 0x0A]) s @ [[CHR 0x0A]]) batch)"
    by (simp only: print_predictions_lines line)
  show ?thesis using eq mem by blast
qed

theorem print_predictions_default_columns_witness:
  "fst (print_predictions example_tagger example_heap example_batch ''pos'') =
     [''The DET DET'' @ [CHR 0x0A], ''cat NOUN O'' @ [CHR 0x0A], [CHR 0x0A],
      ''sat O O'' @ [CHR 0x0A], [CHR 0x0A]]
   \<and> tok_labels (example_heap 2) ''pos'' = None
   \<and> tok_labels (example_heap 2) ''predicted'' = None"
  using print_predictions_default_columns [of example_tagger example_heap example_batch "''pos''"]
  by (simp add: example_heap_def example_batch_def mk_label_def)

subsection \<open>C5: the entries of the label list\<close>

text \<open>
  C5. The list of \<open>get_labels\<close> is parallel to the flattened tokens: entry \<open>i\<close> is
  the one-element list with the value of the label that token \<open>i\<close> gives for the
  configured tag type, which is the value of the attached label when there is one.
\<close>

theorem get_labels_entries:
  "length (get_labels self h sentences) = length (concat sentences)
   \<and> (\<forall>i < length (concat sentences).
         get_labels self h sentences ! i =
           [label_value (get_label (h (concat sentences ! i)) (tag_type self)
              default_zero_tag_value)]
         \<and> (\<forall>l. tok_labels (h (concat sentences ! i)) (tag_type self) = Some l \<longrightarrow>
               get_labels self h sentences ! i = [label_value l]))"
  by (simp add: get_labels_map label_type_def get_label_def)

theorem get_labels_entries_witness:
  "(1::nat) < length (concat example_batch)
   \<and> tok_labels (example_heap (concat example_batch ! 1)) (tag_type example_tagger)
       = Some (mk_label ''NOUN'')
   \<and> get_labels example_tagger example_heap example_batch ! 1 = [''NOUN'']"
proof -
  have a: "(1::nat) < length (concat example_batch)"
    by (simp add: example_batch_def)
  have b: "tok_labels (example_heap (concat example_batch ! 1)) (tag_type example_tagger)
       = Some (mk_label ''NOUN'')"
    by (simp add: example_defs)
  have "get_labels example_tagger example_heap example_batch ! 1 = [label_value (mk_label ''NOUN'')]"
    using a b get_labels_entries [of example_tagger example_heap example_batch] by blast
  then show ?thesis using a b by (simp add: mk_label_def)
qed

subsection \<open>C6: the three fields of the state dict and their round trip\<close>



subsection \<open>C7: the label type is the tag type given at construction\<close>

text \<open>
  C7. After any sequence of operations on a tagger constructed with tag type \<open>t\<close>,
  \<open>label_type\<close> returns \<open>t\<close>.
\<close>

theorem label_type_constant:
  "label_type (fst (run_operations ops (WordTagger_init embs tag_dictionary t args, h))) = t"
  by (simp add: run_operations_self label_type_def WordTagger_init_fields)

theorem label_type_constant_witness:
  "label_type (fst (run_operations
      [OpPrepareTensors example_batch, OpGetLabels example_batch, OpLabelType,
       OpPrintPredictions example_batch ''pos'', OpGetStateDict Map.empty]
      (WordTagger_init example_provider [''DET''] ''pos'' [], example_heap))) = ''pos''"
  by (rule label_type_constant)

subsection \<open>C8: rendering leaves the batch as it was\<close>

text \<open>
  C8. \<open>print_predictions\<close> leaves the store of the tokens, with their texts, labels
  and vectors, exactly as it found it; its result is the list of lines only.
\<close>

theorem print_predictions_frame:
  "snd (print_predictions self h batch gold_label_type) = h
   \<and> print_predictions self h batch gold_label_type =
       (concat (map (\<lambda>s. map (\<lambda>a. eval_line (h a) gold_label_type) s @ [[CHR 0x0A]]) batch), h)"
  by (simp add: print_predictions_def print_datapoints_char)

theorem print_predictions_frame_witness:
  "snd (print_predictions example_tagger example_heap example_batch ''pos'') = example_heap"
  using print_predictions_frame [of example_tagger example_heap example_batch "''pos''"] by simp

subsection \<open>C9: a batch without tokens\<close>

text \<open>
  C9. When every sentence of the batch is empty (also when there is no sentence),
  \<open>get_labels\<close> and \<open>get_prediction_data_points\<close> return the empty list, and
  \<open>prepare_tensors\<close> raises: the provider's error if the provider raises, and the
  error of stacking an empty list otherwise.
\<close>

theorem zero_tokens_behaviour:
  assumes "\<forall>s \<in> set sentences. s = []"
  shows "get_labels self h sentences = []
         \<and> get_prediction_data_points self sentences = []
         \<and> (\<exists>e. fst (prepare_tensors self h sentences) = Inl e)
         \<and> (fst (embed (embeddings self) h sentences) = Inr () \<longrightarrow>
              fst (prepare_tensors self h sentences) = Inl StackEmptyList)"
proof -
  from assms have c: "concat sentences = []" by simp
  have p: "fst (prepare_tensors self h sentences) =
             (case fst (embed (embeddings self) h sentences) of
                Inl e \<Rightarrow> Inl e | Inr u \<Rightarrow> Inl StackEmptyList)"
    by (simp add: prepare_tensors_def all_tokens_concat c split: prod.splits sum.splits)
  have "\<exists>e. fst (prepare_tensors self h sentences) = Inl e"
    unfolding p by (cases "fst (embed (embeddings self) h sentences)") simp_all
  moreover have "fst (embed (embeddings self) h sentences) = Inr () \<longrightarrow>
              fst (prepare_tensors self h sentences) = Inl StackEmptyList"
    unfolding p by simp
  ultimately show ?thesis
    by (simp add: get_labels_map get_prediction_data_points_def extend_tokens_concat c)
qed

theorem zero_tokens_behaviour_witness:
  "get_labels example_tagger example_heap [[], []] = []
   \<and> get_prediction_data_points example_tagger [[], []] = []
   \<and> fst (embed (embeddings example_tagger) example_heap [[], []]) = Inr ()
   \<and> fst (prepare_tensors example_tagger example_heap [[], []]) = Inl StackEmptyList"
proof -
  have a: "\<forall>s \<in> set [[], [] :: sentence]. s = []" by simp
  have e: "fst (embed (embeddings example_tagger) example_heap [[], []]) = Inr ()"
    by (simp add: example_defs)
  show ?thesis using e zero_tokens_behaviour [OF a, of example_tagger example_heap] by simp
qed

subsection \<open>C10: the label dictionary is the tag dictionary of the constructor\<close>

text \<open>
  C10. After any sequence of operations on a tagger constructed with a tag dictionary,
  its label dictionary is that dictionary, the state dict holds it under
  \<open>tag_dictionary\<close>, and \<open>get_labels\<close> reads the labels under the string that
  \<open>label_type\<close> returns.
\<close>

theorem label_dictionary_invariant:
  "label_dictionary (fst (run_operations ops (WordTagger_init embs tag_dictionary t args, h)))
     = tag_dictionary
   \<and> get_state_dict super_state
        (fst (run_operations ops (WordTagger_init embs tag_dictionary t args, h)))
        ''tag_dictionary'' = Some (PyDictionary tag_dictionary)
   \<and> get_labels (fst (run_operations ops (WordTagger_init embs tag_dictionary t args, h)))
        hl sentences =
       map (\<lambda>token. [label_value (get_label (hl token)
               (label_type (fst (run_operations ops
                  (WordTagger_init embs tag_dictionary t args, h))))
               default_zero_tag_value)])
         (concat sentences)"
  by (simp add: run_operations_self WordTagger_init_fields get_state_dict_def get_labels_map)

theorem label_dictionary_invariant_witness:
  "label_dictionary (fst (run_operations [OpPrepareTensors example_batch, OpLabelType]
       (WordTagger_init example_provider [''DET'', ''NOUN''] ''pos'' [], example_heap)))
     = [''DET'', ''NOUN'']"
  using label_dictionary_invariant [of "[OpPrepareTensors example_batch, OpLabelType]" example_provider
      "[''DET'', ''NOUN'']" "''pos''" "[]" example_heap]
  by simp

end
